theory Spec2Isabelle
  imports Main "HOL-Library.Word"
begin

unbundle bit_operations_syntax

section \<open>Data model\<close>

text \<open>
  Identifiers (\<open>context::id_index\<close>) are modelled by their names; the empty identifier is
  the empty string.
\<close>

type_synonym id_index = string

datatype section_kind = DUMMY | COMMON | EXECUTABLE | READONLY | EXTERNAL | WEAK_EXTERNAL

datatype diagnostic_severity = error | warning | info | hint

text \<open>
  A diagnostic is its code and its severity (the message catalogue is not contractual);
  the message is kept for MNOTE, whose text is the user's.
\<close>

record diagnostic_op =
  code :: string
  severity :: diagnostic_severity
  message :: string

definition mk_diag :: "diagnostic_severity \<Rightarrow> string \<Rightarrow> diagnostic_op" where
  "mk_diag s c = \<lparr>code = c, severity = s, message = []\<rparr>"

abbreviation "error_E031 \<equiv> mk_diag error ''E031''"
abbreviation "error_E033 \<equiv> mk_diag error ''E033''"
abbreviation "error_E053 \<equiv> mk_diag error ''E053''"
abbreviation "error_E058 \<equiv> mk_diag error ''E058''"
abbreviation "error_E062 \<equiv> mk_diag error ''E062''"
abbreviation "error_E068 \<equiv> mk_diag error ''E068''"
abbreviation "error_E073 \<equiv> mk_diag error ''E073''"
abbreviation "error_A012_from_to \<equiv> mk_diag error ''A012''"
abbreviation "error_A115_ORG_op_format \<equiv> mk_diag error ''A115''"
abbreviation "error_A116_ORG_boundary_operand \<equiv> mk_diag error ''A116''"
abbreviation "error_A117_MNOTE_message_size \<equiv> mk_diag error ''A117''"
abbreviation "error_A118_MNOTE_operands_size \<equiv> mk_diag error ''A118''"
abbreviation "error_A119_MNOTE_first_op_format \<equiv> mk_diag error ''A119''"
abbreviation "error_A132_EQU_value_format \<equiv> mk_diag error ''A132''"
abbreviation "error_A133_EQU_len_att_format \<equiv> mk_diag error ''A133''"
abbreviation "error_A134_EQU_type_att_format \<equiv> mk_diag error ''A134''"
abbreviation "error_A245_ORG_expression \<equiv> mk_diag error ''A245''"
abbreviation "error_A250_absolute_with_known_symbols \<equiv> mk_diag error ''A250''"
abbreviation "warning_A300_op_apostrophes_missing \<equiv> mk_diag warning ''A300''"

text \<open>
  An address is a section (its index in the context's section list) and a byte offset;
  spaces (unresolved gaps) are not modelled.
\<close>

record address =
  addr_section :: nat
  addr_offset :: nat

datatype symbol_value = UNDEF | ABS int | RELOC address

datatype symbol_origin = origin_EQU | origin_ASM | origin_DAT | origin_SECT | origin_MACH

text \<open>
  \<open>symbol_attributes\<close>: the undefined type and length (\<open>undef_type\<close>,
  \<open>undef_length\<close>) are \<open>None\<close>.
\<close>

record symbol_attributes =
  origin :: symbol_origin
  type_attr :: "nat option"
  len_attr :: "nat option"

record symbol =
  sym_value :: symbol_value
  attributes :: symbol_attributes

record section_data =
  sec_name :: id_index
  sec_kind :: section_kind
  sec_loctr :: nat

record alignment =
  al_byte :: nat
  al_boundary :: nat

definition no_align :: alignment where
  "no_align = \<lparr>al_byte = 0, al_boundary = 1\<rparr>"

definition halfword :: alignment where
  "halfword = \<lparr>al_byte = 0, al_boundary = 2\<rparr>"

text \<open>
  The shared context, as far as the ordinary processor touches it, together with the
  processor's diagnostic stream (\<open>diags\<close>). \<open>postponed\<close> counts the statements handed to
  the dependency graph by \<open>add_dependency\<close>; \<open>sequence_symbols\<close> are those registered
  with the branching provider.
\<close>

record hlasm_context =
  symbols :: "(id_index \<times> symbol) list"
  sections :: "section_data list"
  curr_section :: "nat option"
  postponed :: nat
  symbol_dependencies :: "id_index list"
  copy_stack :: "id_index list"
  sequence_symbols :: "id_index list"
  mnote_max :: nat
  section_alignment :: nat
  diags :: "diagnostic_op list"

definition add_diagnostic :: "diagnostic_op \<Rightarrow> hlasm_context \<Rightarrow> hlasm_context" where
  "add_diagnostic d c = c\<lparr>diags := diags c @ [d]\<rparr>"

section \<open>Statements and operands\<close>

datatype label_si_type = ORD | SEQ | VAR | MAC | CONC | EMPTY

record label_si =
  label_type :: label_si_type
  label_name :: string

text \<open>
  The machine-expression classes are not under the sources modelled here. An expression is
  represented by what the processor reads from it in the context in which the statement is
  processed: its class (\<open>dynamic_cast\<close> to \<open>mach_expr_symbol\<close> or
  \<open>mach_expr_location_counter\<close>), its leftmost term, the results of
  \<open>has_dependencies\<close>, \<open>evaluate\<close> (with the diagnostics it reports to its consumer),
  \<open>get_value\<close> and \<open>get_dependencies\<close>.
\<close>

datatype mach_expression = mach_expr_symbol id_index | mach_expr_location_counter | mach_expr_other

record dependency_collector =
  undefined_symbolics_empty :: bool
  unresolved_spaces_empty :: bool
  unresolved_address :: "address option"

definition contains_dependencies :: "dependency_collector \<Rightarrow> bool" where
  "contains_dependencies h \<longleftrightarrow>
     \<not> undefined_symbolics_empty h \<or> \<not> unresolved_spaces_empty h \<or> unresolved_address h \<noteq> None"

definition is_address :: "dependency_collector \<Rightarrow> bool" where
  "is_address h \<longleftrightarrow> undefined_symbolics_empty h \<and> unresolved_address h \<noteq> None"

record simple_expr_operand =
  expression :: mach_expression
  leftmost_term :: mach_expression
  has_dependencies :: bool
  evaluate :: symbol_value
  evaluate_diags :: "diagnostic_op list"
  get_value :: string
  get_dependencies :: dependency_collector

text \<open>
  The values nested in a complex operand such as \<open>PART(A,B)\<close>: a string
  (\<open>string_value_t\<close>) or something else.
\<close>

datatype complex_value = string_value_t string | composite_value_t

text \<open>
  The data definition of a DC or DS operand, by what \<open>process_data_instruction\<close> reads
  from it for the label: the alignment, the type attribute in EBCDIC, and the length
  modifier, when there is one, with the result of \<open>get_dependencies\<close> before and after
  the label is created, and the length attribute before and after. The scale and integer
  attributes are not part of the symbol model.
\<close>

record data_def_length =
  length_contains_dependencies :: bool
  length_undefined_symbolics :: "id_index list"
  length_contains_dependencies_after :: bool

record data_definition =
  get_alignment :: alignment
  get_type_attribute :: nat
  length_modifier :: "data_def_length option"
  get_length_attribute :: nat
  get_length_attribute_after :: nat

text \<open>
  Operands: \<open>type == EMPTY\<close>; the assembler operands (\<open>type == ASM\<close>) of kind EXPR,
  STRING, COMPLEX (identifier and nested values) and BASE\_END; the machine expression
  operand, which is a \<open>simple_expr_operand\<close> but not an assembler operand; the data
  definition operand; anything else.
\<close>

datatype operand =
    empty_operand
  | expr_assembler_operand simple_expr_operand
  | string_assembler_operand string
  | complex_assembler_operand string "complex_value list"
  | using_instr_assembler_operand
  | expr_machine_operand simple_expr_operand
  | data_def_operand data_definition
  | other_operand

fun is_ASM :: "operand \<Rightarrow> bool" where
  "is_ASM (expr_assembler_operand _) = True"
| "is_ASM (string_assembler_operand _) = True"
| "is_ASM (complex_assembler_operand _ _) = True"
| "is_ASM using_instr_assembler_operand = True"
| "is_ASM _ = False"

fun access_expr :: "operand \<Rightarrow> simple_expr_operand option" where
  "access_expr (expr_assembler_operand e) = Some e"
| "access_expr _ = None"

text \<open>
  \<open>add_dependency_ok\<close> is what \<open>symbol_dependencies().add_dependency(name, expression,
  ...)\<close> answers for the statement: false when the dependency cannot be added.
\<close>

record rebuilt_statement =
  label_ref :: label_si
  operands_ref :: "operand list"
  add_dependency_ok :: bool

section \<open>Context operations\<close>

text \<open>
  Modelled from the spec: the ordinary-assembly context (\<open>ordinary_assembly_context\<close>,
  \<open>location_counter\<close>, \<open>symbol_dependency_tables\<close>) is missing from the sources
  modelled here; its operations follow section 4.1 of the specification: \<open>align(alignment) -> Address\<close>,
  \<open>reserve_storage(length, alignment) -> Address\<close>, \<open>create_symbol(id, value, attrs) ->
  bool\<close> (false if already defined), \<open>get_symbol(id)\<close>, \<open>define_section(id, kind, loc)\<close>.
  A statement that needs a location counter before any section was started opens the
  private (unnamed) executable section.
\<close>

definition get_symbol :: "hlasm_context \<Rightarrow> id_index \<Rightarrow> symbol option" where
  "get_symbol c n = map_of (symbols c) n"

definition symbol_defined :: "hlasm_context \<Rightarrow> id_index \<Rightarrow> bool" where
  "symbol_defined c n \<longleftrightarrow> get_symbol c n \<noteq> None"

definition ord_create_symbol ::
  "id_index \<Rightarrow> symbol_value \<Rightarrow> symbol_attributes \<Rightarrow> hlasm_context \<Rightarrow> bool \<times> hlasm_context" where
  "ord_create_symbol n v a c =
     (if symbol_defined c n then (False, c)
      else (True, c\<lparr>symbols := symbols c @ [(n, \<lparr>sym_value = v, attributes = a\<rparr>)]\<rparr>))"

definition ensure_current_section :: "hlasm_context \<Rightarrow> nat \<times> hlasm_context" where
  "ensure_current_section c =
     (case curr_section c of
        Some i \<Rightarrow> (i, c)
      | None \<Rightarrow>
          (length (sections c),
           c\<lparr>sections := sections c @ [\<lparr>sec_name = [], sec_kind = EXECUTABLE, sec_loctr = 0\<rparr>],
              curr_section := Some (length (sections c))\<rparr>))"

definition aligned :: "alignment \<Rightarrow> nat \<Rightarrow> nat" where
  "aligned al n =
     (if al_boundary al = 0 then n
      else n + (al_byte al + al_boundary al - n mod al_boundary al) mod al_boundary al)"

text \<open>
  \<open>loctr_reserve\<close> works on the location counter of the section with index \<open>i\<close>; the
  context operations only ever hand it the index of an existing section, and it leaves
  the context alone for any other index.
\<close>

definition loctr_reserve :: "nat \<Rightarrow> nat \<Rightarrow> alignment \<Rightarrow> hlasm_context \<Rightarrow> address \<times> hlasm_context" where
  "loctr_reserve i len al c =
     (if i < length (sections c) then
        (let s = sections c ! i;
             n = aligned al (sec_loctr s)
         in (\<lparr>addr_section = i, addr_offset = n\<rparr>,
             c\<lparr>sections := (sections c)[i := s\<lparr>sec_loctr := n + len\<rparr>]\<rparr>))
      else (\<lparr>addr_section = i, addr_offset = 0\<rparr>, c))"

definition reserve_storage_area :: "nat \<Rightarrow> alignment \<Rightarrow> hlasm_context \<Rightarrow> address \<times> hlasm_context" where
  "reserve_storage_area len al c =
     (let (i, c') = ensure_current_section c in loctr_reserve i len al c')"

definition align :: "alignment \<Rightarrow> hlasm_context \<Rightarrow> address \<times> hlasm_context" where
  "align al c = reserve_storage_area 0 al c"

text \<open>The value of the current location counter (0 before any section is started).\<close>

definition loctr_value :: "hlasm_context \<Rightarrow> nat" where
  "loctr_value c = (case curr_section c of None \<Rightarrow> 0 | Some i \<Rightarrow> sec_loctr (sections c ! i))"

definition section_defined :: "hlasm_context \<Rightarrow> id_index \<Rightarrow> section_kind \<Rightarrow> bool" where
  "section_defined c n k = list_ex (\<lambda>s. sec_name s = n \<and> sec_kind s = k) (sections c)"

fun find_section :: "section_data list \<Rightarrow> id_index \<Rightarrow> section_kind \<Rightarrow> nat \<Rightarrow> nat option" where
  "find_section [] n k i = None"
| "find_section (s # ss) n k i =
     (if sec_name s = n \<and> sec_kind s = k then Some i else find_section ss n k (Suc i))"

definition set_section :: "id_index \<Rightarrow> section_kind \<Rightarrow> hlasm_context \<Rightarrow> nat \<times> hlasm_context" where
  "set_section n k c =
     (case find_section (sections c) n k 0 of
        Some i \<Rightarrow> (i, c\<lparr>curr_section := Some i\<rparr>)
      | None \<Rightarrow>
          (let i = length (sections c);
               c1 = c\<lparr>sections := sections c @ [\<lparr>sec_name = n, sec_kind = k, sec_loctr = 0\<rparr>],
                      curr_section := Some i\<rparr>
           in if n = [] then (i, c1)
              else (i, snd (ord_create_symbol n (RELOC \<lparr>addr_section = i, addr_offset = 0\<rparr>)
                              \<lparr>origin = origin_SECT, type_attr = None, len_attr = Some 1\<rparr> c1))))"

definition add_dependency :: "hlasm_context \<Rightarrow> hlasm_context" where
  "add_dependency c = c\<lparr>postponed := Suc (postponed c)\<rparr>"

definition add_symbol_dependency :: "id_index \<Rightarrow> rebuilt_statement \<Rightarrow> hlasm_context \<Rightarrow> bool \<times> hlasm_context" where
  "add_symbol_dependency n stmt c =
     (if add_dependency_ok stmt
      then (True, c\<lparr>symbol_dependencies := symbol_dependencies c @ [n], postponed := Suc (postponed c)\<rparr>)
      else (False, c))"

text \<open>
  Modelled from the spec: \<open>low_language_processor\<close> (\<open>find_label_symbol\<close>,
  \<open>create_symbol\<close>) is missing from the sources modelled here. The label names a symbol
  when it is an ordinary symbol, and is the empty identifier otherwise; the name check that
  reports E065 is not modelled. \<open>create_symbol\<close> hands the symbol to the context.
\<close>

definition find_label_symbol :: "rebuilt_statement \<Rightarrow> id_index" where
  "find_label_symbol stmt =
     (if label_type (label_ref stmt) = ORD then label_name (label_ref stmt) else [])"

definition create_symbol ::
  "id_index \<Rightarrow> symbol_value \<Rightarrow> symbol_attributes \<Rightarrow> hlasm_context \<Rightarrow> bool \<times> hlasm_context" where
  "create_symbol n v a c = ord_create_symbol n v a c"

definition find_sequence_symbol :: "rebuilt_statement \<Rightarrow> hlasm_context \<Rightarrow> hlasm_context" where
  "find_sequence_symbol stmt c =
     (case label_type (label_ref stmt) of
        SEQ \<Rightarrow> c\<lparr>sequence_symbols := sequence_symbols c @ [label_name (label_ref stmt)]\<rparr>
      | _ \<Rightarrow> c)"

section \<open>asm\_processor.cpp\<close>

fun try_get_abs_value_expr :: "simple_expr_operand \<Rightarrow> int option" where
  "try_get_abs_value_expr op =
     (if has_dependencies op then None
      else (case evaluate op of ABS v \<Rightarrow> Some v | _ \<Rightarrow> None))"

fun try_get_abs_value :: "operand \<Rightarrow> int option" where
  "try_get_abs_value (expr_assembler_operand e) = try_get_abs_value_expr e"
| "try_get_abs_value (expr_machine_operand e) = try_get_abs_value_expr e"
| "try_get_abs_value _ = None"

subsection \<open>process\_sect\<close>

definition do_other_private_sections_exist :: "hlasm_context \<Rightarrow> id_index \<Rightarrow> section_kind \<Rightarrow> bool" where
  "do_other_private_sections_exist c sect_name kind =
     list_ex (\<lambda>k. k \<noteq> kind \<and> section_defined c sect_name k) [COMMON, EXECUTABLE, READONLY]"

definition process_sect :: "section_kind \<Rightarrow> rebuilt_statement \<Rightarrow> hlasm_context \<Rightarrow> hlasm_context" where
  "process_sect kind stmt c =
     (let sect_name = find_label_symbol stmt;
          c1 = (if (sect_name \<noteq> [] \<and> symbol_defined c sect_name \<and> \<not> section_defined c sect_name kind)
                   \<or> (sect_name = [] \<and> kind \<noteq> DUMMY \<and> do_other_private_sections_exist c sect_name kind)
                then add_diagnostic error_E031 c
                else snd (set_section sect_name kind c))
      in add_dependency c1)"

subsection \<open>process\_EQU\<close>

definition diagnose :: "diagnostic_op list \<Rightarrow> hlasm_context \<Rightarrow> hlasm_context" where
  "diagnose ds c = c\<lparr>diags := diags c @ ds\<rparr>"

text \<open>The block under \<open>// type attribute operand\<close>.\<close>

definition EQU_type_attr :: "operand list \<Rightarrow> hlasm_context \<Rightarrow> nat option \<times> hlasm_context" where
  "EQU_type_attr ops c =
     (if length ops \<ge> 3 \<and> is_ASM (ops ! 2) then
        (case access_expr (ops ! 2) of
           Some expr_op \<Rightarrow>
             if \<not> has_dependencies expr_op then
               (let c1 = diagnose (evaluate_diags expr_op) c in
                case evaluate expr_op of
                  ABS v \<Rightarrow> if 0 \<le> v \<and> v \<le> 255 then (Some (nat v), c1)
                           else (None, add_diagnostic error_A134_EQU_type_att_format c1)
                | _ \<Rightarrow> (None, add_diagnostic error_A134_EQU_type_att_format c1))
             else (None, add_diagnostic error_A134_EQU_type_att_format c)
         | None \<Rightarrow> (None, add_diagnostic error_A134_EQU_type_att_format c))
      else (None, c))"

text \<open>The block under \<open>// length attribute operand\<close>.\<close>

definition EQU_length_attr :: "operand list \<Rightarrow> hlasm_context \<Rightarrow> nat option \<times> hlasm_context" where
  "EQU_length_attr ops c =
     (if length ops \<ge> 2 \<and> is_ASM (ops ! 1) then
        (case access_expr (ops ! 1) of
           Some expr_op \<Rightarrow>
             if \<not> has_dependencies expr_op then
               (let c1 = diagnose (evaluate_diags expr_op) c in
                case evaluate expr_op of
                  ABS v \<Rightarrow> if 0 \<le> v \<and> v \<le> 65535 then (Some (nat v), c1)
                           else (None, add_diagnostic error_A133_EQU_len_att_format c1)
                | _ \<Rightarrow> (None, add_diagnostic error_A133_EQU_len_att_format c1))
             else (None, add_diagnostic error_A133_EQU_len_att_format c)
         | None \<Rightarrow> (None, add_diagnostic error_A133_EQU_len_att_format c))
      else (None, c))"

text \<open>The default of the length attribute (lines 238 to 252).\<close>

definition EQU_default_length :: "hlasm_context \<Rightarrow> simple_expr_operand \<Rightarrow> nat option" where
  "EQU_default_length c expr_op =
     (case leftmost_term expr_op of
        mach_expr_symbol v \<Rightarrow>
          (case get_symbol c v of
             Some len_symbol \<Rightarrow>
               if sym_value len_symbol \<noteq> UNDEF then len_attr (attributes len_symbol) else Some 1
           | None \<Rightarrow> Some 1)
      | _ \<Rightarrow> Some 1)"

text \<open>The block under \<open>// value operand\<close>.\<close>

definition EQU_value ::
  "rebuilt_statement \<Rightarrow> id_index \<Rightarrow> nat option \<Rightarrow> nat option \<Rightarrow> hlasm_context \<Rightarrow> hlasm_context" where
  "EQU_value stmt symbol_name t_attr length_attr0 c =
     (let ops = operands_ref stmt in
      if \<not> is_ASM (ops ! 0) then add_diagnostic error_A132_EQU_value_format c
      else case access_expr (ops ! 0) of
        None \<Rightarrow> add_diagnostic error_A132_EQU_value_format c
      | Some expr_op \<Rightarrow>
          (let holder = get_dependencies expr_op;
               length_attr = (if length_attr0 = None then EQU_default_length c expr_op else length_attr0);
               attrs = \<lparr>origin = origin_EQU, type_attr = t_attr, len_attr = length_attr\<rparr>
           in if \<not> contains_dependencies holder then
                snd (create_symbol symbol_name (evaluate expr_op) attrs (diagnose (evaluate_diags expr_op) c))
              else if is_address holder \<and> unresolved_spaces_empty holder then
                (case unresolved_address holder of
                   Some a \<Rightarrow> snd (create_symbol symbol_name (RELOC a) attrs c)
                 | None \<Rightarrow> c)
              else
                (case create_symbol symbol_name UNDEF attrs c of
                   (True, c1) \<Rightarrow>
                     (case add_symbol_dependency symbol_name stmt c1 of
                        (True, c2) \<Rightarrow> c2
                      | (False, c2) \<Rightarrow> add_diagnostic error_E033 c2)
                 | (False, c1) \<Rightarrow> c1)))"

definition process_EQU :: "rebuilt_statement \<Rightarrow> hlasm_context \<Rightarrow> hlasm_context" where
  "process_EQU stmt c0 =
     (let c = snd (align no_align c0);
          symbol_name = find_label_symbol stmt;
          ops = operands_ref stmt
      in if symbol_name = [] then
           (if label_type (label_ref stmt) = EMPTY then add_diagnostic error_E053 c else c)
         else if symbol_defined c symbol_name then add_diagnostic error_E031 c
         else if ops = [] \<or> length ops > 5 then add_diagnostic error_A012_from_to c
         else
           (let (t_attr, c1) = EQU_type_attr ops c;
                (length_attr, c2) = EQU_length_attr ops c1
            in EQU_value stmt symbol_name t_attr length_attr c2))"

subsection \<open>process\_START\<close>

text \<open>
  Lines 1051 to 1060: the initial offset is rounded up to the section alignment in
  unsigned arithmetic (\<open>uint32_t offset\<close>, \<open>size_t\<close> mask of 64 bits).
\<close>

definition START_offset :: "nat \<Rightarrow> int \<Rightarrow> nat" where
  "START_offset start_section_alignment initial_offset =
     (let start_section_alignment_mask = (word_of_nat start_section_alignment - 1 :: 64 word);
          offset = (word_of_int initial_offset :: 32 word)
      in if (ucast offset AND start_section_alignment_mask) \<noteq> 0 then
           (let offset1 = (ucast ((ucast offset :: 64 word) + start_section_alignment_mask) :: 32 word);
                offset2 = (ucast ((ucast offset1 :: 64 word) AND NOT start_section_alignment_mask) :: 32 word)
            in unat offset2)
         else unat offset)"

definition process_START :: "rebuilt_statement \<Rightarrow> hlasm_context \<Rightarrow> hlasm_context" where
  "process_START stmt c =
     (let sect_name = find_label_symbol stmt in
      if list_ex (\<lambda>s. sec_kind s = EXECUTABLE \<or> sec_kind s = READONLY) (sections c) then
        add_diagnostic error_E073 c
      else if symbol_defined c sect_name then add_diagnostic error_E031 c
      else
        (let (section, c1) = set_section sect_name EXECUTABLE c;
             ops = operands_ref stmt
         in if length ops \<noteq> 1 then add_dependency c1
            else case try_get_abs_value (hd ops) of
              None \<Rightarrow> add_diagnostic error_A250_absolute_with_known_symbols c1
            | Some initial_offset \<Rightarrow>
                snd (loctr_reserve section (START_offset (section_alignment c1) initial_offset) no_align c1)))"

subsection \<open>process\_ORG\<close>

datatype check_org_result = valid | underflow | invalid_address

text \<open>
  \<open>check_address_for_ORG\<close> and the context's \<open>set_location_counter_value\<close> (in its two
  overloads) and \<open>set_available_location_counter_value\<close> are not under the sources at
  hand: \<open>process_ORG\<close> takes them as parameters.
\<close>

record ORG_context_operations =
  check_address_for_ORG :: "address \<Rightarrow> address \<Rightarrow> nat \<Rightarrow> int \<Rightarrow> check_org_result"
  set_location_counter_value :: "address \<Rightarrow> nat \<Rightarrow> int \<Rightarrow> hlasm_context \<Rightarrow> hlasm_context"
  set_location_counter_value_postponed :: "address \<Rightarrow> nat \<Rightarrow> int \<Rightarrow> hlasm_context \<Rightarrow> hlasm_context"
  set_available_location_counter_value :: "hlasm_context \<Rightarrow> hlasm_context"

text \<open>
  The attribute factories \<open>make_org_attrs\<close> and \<open>make_cnop_attrs\<close> are not under the
  sources modelled here; only the origin is recorded.
\<close>

definition make_org_attrs :: symbol_attributes where
  "make_org_attrs = \<lparr>origin = origin_ASM, type_attr = None, len_attr = None\<rparr>"

definition make_cnop_attrs :: symbol_attributes where
  "make_cnop_attrs = \<lparr>origin = origin_ASM, type_attr = None, len_attr = None\<rparr>"

text \<open>
  The loop over the operands (lines 584 to 624): \<open>Inl\<close> is the \<open>return\<close> out of
  \<open>process_ORG\<close>, \<open>Inr\<close> the state with which the loop is left (\<open>reloc_expr\<close>,
  \<open>boundary\<close>, \<open>offset\<close>).
\<close>

fun ORG_operands ::
  "operand list \<Rightarrow> nat \<Rightarrow> simple_expr_operand option \<times> nat \<times> int \<Rightarrow> hlasm_context
   \<Rightarrow> hlasm_context + (simple_expr_operand option \<times> nat \<times> int) \<times> hlasm_context" where
  "ORG_operands [] i acc c = Inr (acc, c)"
| "ORG_operands (op # ops) i (reloc_expr, boundary, offset) c =
     (if \<not> is_ASM op then ORG_operands ops (Suc i) (reloc_expr, boundary, offset) c
      else case access_expr op of
        None \<Rightarrow>
          Inr ((reloc_expr, boundary, offset),
               if i \<noteq> 0 then add_diagnostic error_A115_ORG_op_format c else c)
      | Some expr \<Rightarrow>
          if i = 0 then ORG_operands ops (Suc i) (Some expr, boundary, offset) c
          else if i = 1 then
            (case try_get_abs_value_expr expr of
               None \<Rightarrow> Inl (add_diagnostic error_A116_ORG_boundary_operand c)
             | Some val \<Rightarrow>
                 if val < 2 \<or> val > 4096 \<or> (val AND (val - 1)) \<noteq> 0
                 then Inl (add_diagnostic error_A116_ORG_boundary_operand c)
                 else ORG_operands ops (Suc i) (reloc_expr, nat val, offset) c)
          else if i = 2 then
            (case try_get_abs_value_expr expr of
               None \<Rightarrow> Inl (add_diagnostic error_A115_ORG_op_format c)
             | Some val \<Rightarrow> ORG_operands ops (Suc i) (reloc_expr, boundary, val) c)
          else ORG_operands ops (Suc i) (reloc_expr, boundary, offset) c)"

text \<open>Lines 626 to 683, after the loop.\<close>

fun ORG_set_counter ::
  "ORG_context_operations \<Rightarrow> address \<Rightarrow> simple_expr_operand option \<times> nat \<times> int \<Rightarrow> hlasm_context
   \<Rightarrow> hlasm_context" where
  "ORG_set_counter ord_ctx loctr (reloc_expr_o, boundary, offset) c =
     (case reloc_expr_o of
        None \<Rightarrow> add_diagnostic error_A245_ORG_expression c
      | Some reloc_expr \<Rightarrow>
          (let deps = get_dependencies reloc_expr;
               undefined_absolute_part =
                 (\<not> undefined_symbolics_empty deps \<or> \<not> unresolved_spaces_empty deps);
               reloc_val_o =
                 (if \<not> undefined_absolute_part then
                    (case evaluate reloc_expr of RELOC a \<Rightarrow> Some a | _ \<Rightarrow> None)
                  else (case unresolved_address deps of Some a \<Rightarrow> Some a | None \<Rightarrow> Some loctr))
           in case reloc_val_o of
                None \<Rightarrow> add_diagnostic error_A245_ORG_expression c
              | Some reloc_val \<Rightarrow>
                  (case check_address_for_ORG ord_ctx reloc_val loctr boundary offset of
                     underflow \<Rightarrow> add_diagnostic error_E068 c
                   | invalid_address \<Rightarrow> add_diagnostic error_A115_ORG_op_format c
                   | valid \<Rightarrow>
                       (let c1 = (if undefined_absolute_part
                                  then set_location_counter_value_postponed ord_ctx reloc_val boundary offset c
                                  else set_location_counter_value ord_ctx reloc_val boundary offset c)
                        in if boundary > 1 \<and> offset = 0
                           then snd (align \<lparr>al_byte = 0, al_boundary = boundary\<rparr> c1)
                           else c1))))"

text \<open>Lines 554 to 565: the sequence symbol, the location counter and the label.\<close>

definition ORG_label :: "rebuilt_statement \<Rightarrow> hlasm_context \<Rightarrow> address \<times> hlasm_context" where
  "ORG_label stmt c0 =
     (let c1 = find_sequence_symbol stmt c0;
          label = find_label_symbol stmt;
          (loctr, c2) = align no_align c1
      in (loctr,
          if label \<noteq> [] then
            (if symbol_defined c2 label then add_diagnostic error_E031 c2
             else snd (create_symbol label (RELOC loctr) make_org_attrs c2))
          else c2))"

definition process_ORG :: "ORG_context_operations \<Rightarrow> rebuilt_statement \<Rightarrow> hlasm_context \<Rightarrow> hlasm_context" where
  "process_ORG ord_ctx stmt c0 =
     (let (loctr, c3) = ORG_label stmt c0;
          ops = operands_ref stmt
      in if ops = [] \<or> (length ops = 2 \<and> ops ! 0 = empty_operand \<and> ops ! 1 = empty_operand)
         then set_available_location_counter_value ord_ctx c3
         else case ORG_operands ops 0 (None, 0, 0) c3 of
                Inl c4 \<Rightarrow> c4
              | Inr (acc, c4) \<Rightarrow> ORG_set_counter ord_ctx loctr acc c4)"

subsection \<open>process\_CNOP\<close>

text \<open>Lines 977 to 987: the halfword alignment, the sequence symbol and the label.\<close>

definition CNOP_label :: "rebuilt_statement \<Rightarrow> hlasm_context \<Rightarrow> hlasm_context" where
  "CNOP_label stmt c0 =
     (let (loctr, c1) = align halfword c0;
          c2 = find_sequence_symbol stmt c1;
          label = find_label_symbol stmt
      in if label \<noteq> [] then
           (if symbol_defined c2 label then add_diagnostic error_E031 c2
            else snd (create_symbol label (RELOC loctr) make_cnop_attrs c2))
         else c2)"

definition process_CNOP :: "rebuilt_statement \<Rightarrow> hlasm_context \<Rightarrow> hlasm_context" where
  "process_CNOP stmt c0 =
     (let c3 = CNOP_label stmt c0;
          ops = operands_ref stmt;
          c4 = (if length ops = 2 then
                  (case (try_get_abs_value (ops ! 0), try_get_abs_value (ops ! 1)) of
                     (Some byte_value, Some boundary_value) \<Rightarrow>
                       if byte_value \<ge> 0 \<and> boundary_value > 0
                          \<and> (boundary_value AND (boundary_value - 1)) = 0
                          \<and> byte_value < boundary_value \<and> byte_value mod 2 = 0
                       then snd (reserve_storage_area 0
                                   \<lparr>al_byte = nat byte_value, al_boundary = nat boundary_value\<rparr> c3)
                       else c3
                   | _ \<Rightarrow> c3)
                else c3)
      in add_dependency c4)"

subsection \<open>common\_copy\_postprocess\<close>

text \<open>
  Modelled from the spec: \<open>hlasm_context::whole_copy_stack\<close> and
  \<open>hlasm_context::enter_copy_member\<close> are missing from the sources modelled here; the copy stack
  is the sequence of the member names entered and not yet left (section 4.1:
  \<open>enter_copy(id)\<close>, \<open>whole_copy_stack()\<close>).
\<close>

definition whole_copy_stack :: "hlasm_context \<Rightarrow> id_index list" where
  "whole_copy_stack c = copy_stack c"

definition enter_copy_member :: "id_index \<Rightarrow> hlasm_context \<Rightarrow> hlasm_context" where
  "enter_copy_member n c = c\<lparr>copy_stack := copy_stack c @ [n]\<rparr>"

text \<open>
  \<open>diagnoser\<close> says whether the \<open>diagnosable_ctx*\<close> handed in is non-null; its
  diagnostics are collected in \<open>diags\<close>.
\<close>

definition common_copy_postprocess ::
  "bool \<Rightarrow> id_index \<Rightarrow> hlasm_context \<Rightarrow> bool \<Rightarrow> bool \<times> hlasm_context" where
  "common_copy_postprocess processed name c diagnoser =
     (if \<not> processed then
        (False, if diagnoser then add_diagnostic error_E058 c else c)
      else if name \<in> set (whole_copy_stack c) then
        (False, if diagnoser then add_diagnostic error_E062 c else c)
      else (True, enter_copy_member name c))"

subsection \<open>process\_MNOTE\<close>













subsection \<open>process\_LOCTR\<close>



subsection \<open>process\_data\_instruction: the label\<close>

text \<open>
  Lines 277 to 287: without operands, or with an empty operand, the statement is only
  handed to the dependency graph.
\<close>

definition data_instruction_without_operands :: "operand list \<Rightarrow> bool" where
  "data_instruction_without_operands ops \<longleftrightarrow> ops = [] \<or> list_ex (\<lambda>op. op = empty_operand) ops"




subsection \<open>process\_external\<close>

abbreviation "warning_A249_sequence_symbol_expected \<equiv> mk_diag warning ''A249''"

datatype external_type = strong | weak







subsection \<open>process\_CCW and process\_CXD\<close>






subsection \<open>process\_LTORG\<close>

text \<open>
  Lines 1113 to 1128. The type attribute of the label is \<open>U\<close> in EBCDIC (228), its
  length 1.
\<close>

definition LTORG_label :: "rebuilt_statement \<Rightarrow> hlasm_context \<Rightarrow> hlasm_context" where
  "LTORG_label stmt c0 =
     (let (loctr, c1) = align \<lparr>al_byte = 0, al_boundary = 8\<rparr> c0;
          c2 = find_sequence_symbol stmt c1;
          label = find_label_symbol stmt
      in if label \<noteq> [] then
           (if symbol_defined c2 label then add_diagnostic error_E031 c2
            else snd (create_symbol label (RELOC loctr)
                        \<lparr>origin = origin_EQU, type_attr = Some 228, len_attr = Some 1\<rparr> c2))
         else c2)"

text \<open>
  \<open>generate_pool\<close> (the literal pool) is not under the sources modelled here:
  \<open>process_LTORG\<close> takes it as a parameter.
\<close>

definition process_LTORG ::
  "(hlasm_context \<Rightarrow> hlasm_context) \<Rightarrow> rebuilt_statement \<Rightarrow> hlasm_context \<Rightarrow> hlasm_context" where
  "process_LTORG generate_pool stmt c0 = add_dependency (generate_pool (LTORG_label stmt c0))"

subsection \<open>process\_DROP\<close>

abbreviation "error_A141_DROP_op_format \<equiv> mk_diag error ''A141''"
abbreviation "warn_A251_unexpected_label \<equiv> mk_diag warning ''A251''"

text \<open>Lines 1224 to 1238.\<close>

definition DROP_label :: "rebuilt_statement \<Rightarrow> hlasm_context \<Rightarrow> hlasm_context" where
  "DROP_label stmt c0 =
     (let (loctr, c1) = align no_align c0;
          label = find_label_symbol stmt
      in if label \<noteq> [] then
           (if symbol_defined c1 label then add_diagnostic error_E031 c1
            else snd (create_symbol label (RELOC loctr)
                        \<lparr>origin = origin_EQU, type_attr = None, len_attr = None\<rparr>
                        (add_diagnostic warn_A251_unexpected_label c1)))
         else c1)"

text \<open>The loop that collects the bases (lines 1248 to 1256).\<close>

fun DROP_bases ::
  "operand list \<Rightarrow> simple_expr_operand list \<Rightarrow> hlasm_context
   \<Rightarrow> simple_expr_operand list \<times> hlasm_context" where
  "DROP_bases [] bases c = (bases, c)"
| "DROP_bases (op # r) bases c =
     (if \<not> is_ASM op then DROP_bases r bases (add_diagnostic error_A141_DROP_op_format c)
      else case access_expr op of
        None \<Rightarrow> DROP_bases r bases (add_diagnostic error_A141_DROP_op_format c)
      | Some expr \<Rightarrow> DROP_bases r (bases @ [expr]) c)"

text \<open>
  \<open>hlasm_context::using_remove\<close> is not under the sources modelled here: \<open>process_DROP\<close>
  takes it as a parameter.
\<close>

definition process_DROP ::
  "(simple_expr_operand list \<Rightarrow> hlasm_context \<Rightarrow> hlasm_context) \<Rightarrow> rebuilt_statement
   \<Rightarrow> hlasm_context \<Rightarrow> hlasm_context" where
  "process_DROP using_remove stmt c0 =
     (let c1 = DROP_label stmt c0;
          ops = operands_ref stmt;
          (bases, c2) =
            (if ops \<noteq> [] \<and> \<not> (length ops = 2 \<and> ops ! 0 = empty_operand \<and> ops ! 1 = empty_operand)
             then DROP_bases ops [] c1
             else ([], c1))
      in using_remove bases c2)"

subsection \<open>process\_USING\<close>

abbreviation "error_A104_USING_first_format \<equiv> mk_diag error ''A104''"
abbreviation "error_A164_USING_mapping_format \<equiv> mk_diag error ''A164''"








section \<open>members\_statement\_provider.cpp\<close>

datatype processing_kind = ORDINARY | LOOKAHEAD | MACRO | COPY

datatype processing_form = form_MACH | form_ASM | form_MAC | form_CA | form_DAT | form_IGNORED | form_DEFERRED | form_UNKNOWN

datatype operand_occurrence = PRESENT | ABSENT

record processing_format =
  form :: processing_form
  occurrence :: operand_occurrence

type_synonym op_code = string

type_synonym processing_status = "processing_format \<times> op_code"

type_synonym instruction_si = string

type_synonym resolved_instruction = string

text \<open>
  A deferred statement: its instruction field, the raw text of its operand field and the
  diagnostics recorded with it. The parser's result (operands, remarks, literals) is kept
  as the parser returned it.
\<close>

record deferred_statement =
  instruction_ref :: instruction_si
  deferred_ref :: string
  deferred_diags :: "diagnostic_op list"

type_synonym parsed_fields = "operand list \<times> string list \<times> string list"

record statement_si_defer_done =
  deferred_stmt :: deferred_statement
  parsed :: parsed_fields

record resolved_statement_impl =
  base_stmt :: statement_si_defer_done
  status :: processing_status

text \<open>
  The statements a provider hands out. \<open>RESOLVED\<close>, \<open>DEFERRED\<close> and \<open>ERROR\<close> are the
  kinds of \<open>context::statement_kind\<close>; \<open>REPARSED\<close> is the \<open>resolved_statement_impl\<close>
  that \<open>preprocess_deferred\<close> builds, also of kind RESOLVED.
\<close>

datatype shared_stmt =
    RESOLVED instruction_si
  | DEFERRED deferred_statement
  | ERROR "diagnostic_op list"
  | REPARSED resolved_statement_impl

record cached_statement_t =
  cached_stmt :: statement_si_defer_done
  cached_diags :: "diagnostic_op list"

text \<open>
  Modelled from the spec: \<open>context::statement_cache\<close> and
  \<open>processing_status_cache_key\<close> are missing from the sources modelled here; a statement keeps a
  cache of its re-parses keyed by processing status (sections 3 and 4.4).
\<close>

record statement_cache =
  get_base :: shared_stmt
  cache :: "(processing_status \<times> cached_statement_t) list"

definition processing_status_cache_key :: "processing_status \<Rightarrow> processing_status" where
  "processing_status_cache_key st = st"

definition cache_contains :: "statement_cache \<Rightarrow> processing_status \<Rightarrow> bool" where
  "cache_contains sc key \<longleftrightarrow> map_of (cache sc) key \<noteq> None"

definition cache_insert :: "processing_status \<Rightarrow> cached_statement_t \<Rightarrow> statement_cache \<Rightarrow> statement_cache" where
  "cache_insert key item sc = (if cache_contains sc key then sc else sc\<lparr>cache := cache sc @ [(key, item)]\<rparr>)"

definition cache_get :: "statement_cache \<Rightarrow> processing_status \<Rightarrow> cached_statement_t option" where
  "cache_get sc key = map_of (cache sc) key"

text \<open>
  The parser (\<open>statement_fields_parser::parse_operand_field\<close>) and
  \<open>filter_cached_diagnostics\<close> are not under the sources modelled here: the provider takes them
  as parameters. The parser returns the fields together with the diagnostics it gives to
  its consumer.
\<close>

record parser_operations =
  parse_operand_field :: "string \<Rightarrow> processing_status \<Rightarrow> parsed_fields \<times> diagnostic_op list"
  filter_cached_diagnostics :: "deferred_statement \<Rightarrow> diagnostic_op list"

definition fill_cache ::
  "parser_operations \<Rightarrow> statement_cache \<Rightarrow> deferred_statement \<Rightarrow> processing_status \<Rightarrow> statement_cache" where
  "fill_cache m_parser sc def_stmt st =
     (let reparsed_diags = filter_cached_diagnostics m_parser def_stmt;
          def_s = deferred_ref def_stmt;
          reparsed_stmt =
            (if occurrence (fst st) = ABSENT \<or> form (fst st) = form_UNKNOWN \<or> form (fst st) = form_IGNORED
             then \<lparr>cached_stmt = \<lparr>deferred_stmt = def_stmt, parsed = ([], [], [])\<rparr>,
                   cached_diags = reparsed_diags\<rparr>
             else (let (fields, parser_diags) = parse_operand_field m_parser def_s st
                   in \<lparr>cached_stmt = \<lparr>deferred_stmt = def_stmt, parsed = fields\<rparr>,
                       cached_diags = reparsed_diags @ parser_diags\<rparr>))
      in cache_insert (processing_status_cache_key st) reparsed_stmt sc)"

text \<open>
  \<open>preprocess_deferred\<close> returns the statement, the statement cache as it leaves it and
  the diagnostic stream \<open>m_diagnoser\<close>. \<open>Inl\<close> stands for the dereference of an absent
  cache entry, which the code does not guard.
\<close>

datatype exception = runtime_error string | null_dereference

definition preprocess_deferred ::
  "parser_operations \<Rightarrow> processing_kind \<Rightarrow> statement_cache \<Rightarrow> processing_status \<Rightarrow> deferred_statement
   \<Rightarrow> diagnostic_op list \<Rightarrow> exception + shared_stmt \<times> statement_cache \<times> diagnostic_op list" where
  "preprocess_deferred m_parser processor_kind sc0 st def_stmt m_diagnoser =
     (let key = processing_status_cache_key st;
          sc = (if \<not> cache_contains sc0 key then fill_cache m_parser sc0 def_stmt st else sc0)
      in case cache_get sc key of
           None \<Rightarrow> Inl null_dereference
         | Some cache_item \<Rightarrow>
             (let m_diagnoser1 =
                    (if processor_kind \<noteq> LOOKAHEAD then m_diagnoser @ cached_diags cache_item
                     else m_diagnoser)
              in Inr (REPARSED \<lparr>base_stmt = cached_stmt cache_item, status = st\<rparr>, sc, m_diagnoser1)))"

text \<open>
  The provider's own \<open>finished()\<close>, its private \<open>get_next()\<close> and \<open>go_back\<close>, the two
  overloads of \<open>try_trigger_attribute_lookahead\<close> and the processor's
  \<open>resolve_instruction\<close> and \<open>get_processing_status\<close> are not under the sources at
  hand: they are parameters, over the state \<open>'s\<close> of the concrete provider.
\<close>

record 's provider_operations =
  finished :: "'s \<Rightarrow> bool"
  get_next_cache :: "'s \<Rightarrow> (statement_cache option \<times> resolved_instruction option) \<times> 's"
  go_back :: "resolved_instruction \<Rightarrow> 's \<Rightarrow> 's"
  try_trigger_attribute_lookahead_instr :: "instruction_si \<Rightarrow> 's \<Rightarrow> bool \<times> 's"
  try_trigger_attribute_lookahead_stmt :: "shared_stmt \<Rightarrow> 's \<Rightarrow> bool \<times> 's"

record statement_processor =
  kind :: processing_kind
  resolve_instruction :: "instruction_si \<Rightarrow> resolved_instruction"
  get_processing_status :: "resolved_instruction \<Rightarrow> processing_status option"

fun retrieve_instruction :: "statement_cache \<Rightarrow> instruction_si option" where
  "retrieve_instruction sc =
     (case get_base sc of
        RESOLVED i \<Rightarrow> Some i
      | DEFERRED d \<Rightarrow> Some (instruction_ref d)
      | ERROR _ \<Rightarrow> None
      | REPARSED r \<Rightarrow> Some (instruction_ref (deferred_stmt (base_stmt r))))"

text \<open>
  The result of \<open>get_next\<close>: \<open>Inl\<close> an exception; \<open>Inr\<close> the statement (\<open>None\<close> is
  \<open>nullptr\<close>), the statement cache as it is left, the provider's state and \<open>m_diagnoser\<close>.
\<close>

definition get_next_switch ::
  "parser_operations \<Rightarrow> 's provider_operations \<Rightarrow> statement_processor \<Rightarrow> statement_cache
   \<Rightarrow> resolved_instruction option \<Rightarrow> 's \<Rightarrow> diagnostic_op list
   \<Rightarrow> exception + shared_stmt option \<times> statement_cache \<times> 's \<times> diagnostic_op list" where
  "get_next_switch m_parser prov processor sc resolved_instruction_o s m_diagnoser =
     (case get_base sc of
        DEFERRED d \<Rightarrow>
          (let current_instr = instruction_ref d;
               resolved_instr = (case resolved_instruction_o of
                                   Some r \<Rightarrow> r
                                 | None \<Rightarrow> resolve_instruction processor current_instr)
           in case get_processing_status processor resolved_instr of
                None \<Rightarrow> Inr (None, sc, go_back prov resolved_instr s, m_diagnoser)
              | Some proc_status \<Rightarrow>
                  if form (fst proc_status) \<noteq> form_DEFERRED then
                    (case preprocess_deferred m_parser (kind processor) sc proc_status d m_diagnoser of
                       Inl e \<Rightarrow> Inl e
                     | Inr (stmt, sc1, m_diagnoser1) \<Rightarrow> Inr (Some stmt, sc1, s, m_diagnoser1))
                  else Inr (Some (get_base sc), sc, s, m_diagnoser))
      | _ \<Rightarrow> Inr (Some (get_base sc), sc, s, m_diagnoser))"

definition get_next ::
  "parser_operations \<Rightarrow> 's provider_operations \<Rightarrow> statement_processor \<Rightarrow> 's \<Rightarrow> diagnostic_op list
   \<Rightarrow> exception + shared_stmt option \<times> statement_cache option \<times> 's \<times> diagnostic_op list" where
  "get_next m_parser prov processor s0 m_diagnoser =
     (if finished prov s0 then Inl (runtime_error ''provider already finished'')
      else
        (case get_next_cache prov s0 of
           ((None, _), s1) \<Rightarrow> Inr (None, None, s1, m_diagnoser)
         | ((Some sc, resolved_instruction_o), s1) \<Rightarrow>
             (let (triggered, s2) =
                    (if kind processor = ORDINARY then
                       (case retrieve_instruction sc of
                          Some instr \<Rightarrow> try_trigger_attribute_lookahead_instr prov instr s1
                        | None \<Rightarrow> (False, s1))
                     else (False, s1))
              in if triggered then Inr (None, Some sc, s2, m_diagnoser)
                 else
                   (case get_next_switch m_parser prov processor sc resolved_instruction_o s2 m_diagnoser of
                      Inl e \<Rightarrow> Inl e
                    | Inr (None, sc1, s3, m_diagnoser1) \<Rightarrow> Inr (None, Some sc1, s3, m_diagnoser1)
                    | Inr (Some stmt, sc1, s3, m_diagnoser1) \<Rightarrow>
                        if kind processor = ORDINARY then
                          (case try_trigger_attribute_lookahead_stmt prov stmt s3 of
                             (True, s4) \<Rightarrow> Inr (None, Some sc1, s4, m_diagnoser1)
                           | (False, s4) \<Rightarrow> Inr (Some stmt, Some sc1, s4, m_diagnoser1))
                        else Inr (Some stmt, Some sc1, s3, m_diagnoser1)))))"

section \<open>resource\_location.h\<close>

text \<open>
  \<open>resource_location\<close> holds a shared pointer to an immutable \<open>data\<close> (hash and URI), or
  no data at all. Two pointers that are equal point to equal data, so the model compares
  the data.
\<close>

record data =
  hash :: nat
  uri :: string

record resource_location =
  m_data :: "data option"

definition empty_location :: "resource_location \<Rightarrow> bool" where
  "empty_location rl \<longleftrightarrow> m_data rl = None"

definition operator_eq :: "resource_location \<Rightarrow> resource_location \<Rightarrow> bool" where
  "operator_eq a b \<longleftrightarrow>
     m_data a = m_data b
     \<or> (case (m_data a, m_data b) of
           (Some da, Some db) \<Rightarrow> hash da = hash db \<and> uri da = uri db
         | _ \<Rightarrow> False)"

section \<open>Example inputs\<close>

definition initial_context :: hlasm_context where
  "initial_context =
     \<lparr>symbols = [], sections = [], curr_section = None, postponed = 0, symbol_dependencies = [],
      copy_stack = [], sequence_symbols = [], mnote_max = 0, section_alignment = 8, diags = []\<rparr>"

definition no_dependencies :: dependency_collector where
  "no_dependencies =
     \<lparr>undefined_symbolics_empty = True, unresolved_spaces_empty = True, unresolved_address = None\<rparr>"

text \<open>A self-defining term, such as \<open>1\<close>, and a reference to a symbol with its value.\<close>

definition constant_operand :: "int \<Rightarrow> string \<Rightarrow> operand" where
  "constant_operand v txt = expr_assembler_operand
     \<lparr>expression = mach_expr_other, leftmost_term = mach_expr_other, has_dependencies = False,
      evaluate = ABS v, evaluate_diags = [], get_value = txt, get_dependencies = no_dependencies\<rparr>"

definition symbol_operand :: "id_index \<Rightarrow> symbol_value \<Rightarrow> operand" where
  "symbol_operand n v = expr_assembler_operand
     \<lparr>expression = mach_expr_symbol n, leftmost_term = mach_expr_symbol n, has_dependencies = False,
      evaluate = v, evaluate_diags = [], get_value = n, get_dependencies = no_dependencies\<rparr>"

definition statement :: "label_si_type \<Rightarrow> string \<Rightarrow> operand list \<Rightarrow> rebuilt_statement" where
  "statement t n ops =
     \<lparr>label_ref = \<lparr>label_type = t, label_name = n\<rparr>, operands_ref = ops, add_dependency_ok = True\<rparr>"

text \<open>\<open>A EQU 1\<close> followed by \<open>A EQU 2\<close>.\<close>

definition EQU_A_1 :: rebuilt_statement where
  "EQU_A_1 = statement ORD ''A'' [constant_operand 1 ''1'']"


text \<open>\<open>A EQU 1,4\<close> followed by \<open>B EQU A\<close>.\<close>

definition A_EQU_1_4 :: rebuilt_statement where
  "A_EQU_1_4 = statement ORD ''A'' [constant_operand 1 ''1'', constant_operand 4 ''4'']"

definition B_EQU_A :: rebuilt_statement where
  "B_EQU_A = statement ORD ''B'' [symbol_operand ''A'' (ABS 1)]"

definition context_with_A :: hlasm_context where
  "context_with_A = process_EQU A_EQU_1_4 initial_context"

text \<open>\<open>CSECT\<close> without a label followed by \<open>X START 0\<close>.\<close>

definition CSECT_private :: rebuilt_statement where
  "CSECT_private = statement EMPTY [] []"

definition X_START_0 :: rebuilt_statement where
  "X_START_0 = statement ORD ''X'' [constant_operand 0 ''0'']"

lemmas ctx_defs = process_EQU_def align_def reserve_storage_area_def ensure_current_section_def
  loctr_reserve_def aligned_def no_align_def find_label_symbol_def statement_def constant_operand_def
  symbol_operand_def initial_context_def symbol_defined_def get_symbol_def EQU_type_attr_def
  EQU_length_attr_def EQU_value_def EQU_default_length_def contains_dependencies_def no_dependencies_def
  create_symbol_def ord_create_symbol_def diagnose_def add_diagnostic_def Let_def

section \<open>The words of the claims\<close>

text \<open>A power of two: 1, or twice a power of two.\<close>

function is_power_of_two :: "int \<Rightarrow> bool" where
  "is_power_of_two n =
     (if n \<le> 0 then False else if n = 1 then True else even n \<and> is_power_of_two (n div 2))"
  by pat_completeness auto
termination
  by (relation "measure nat") auto

declare is_power_of_two.simps [simp del]

text \<open>
  The operands of a CNOP that is carried out: two operands that evaluate to absolute
  values with \<open>0 \<le> byte < boundary\<close>, the boundary a power of two and the byte even.
\<close>

definition CNOP_operands_valid :: "operand list \<Rightarrow> bool" where
  "CNOP_operands_valid ops \<longleftrightarrow>
     length ops = 2 \<and>
     (case (try_get_abs_value (ops ! 0), try_get_abs_value (ops ! 1)) of
        (Some byte_value, Some boundary_value) \<Rightarrow>
          0 \<le> byte_value \<and> byte_value < boundary_value \<and> is_power_of_two boundary_value
          \<and> even byte_value
      | _ \<Rightarrow> False)"

text \<open>\<open>ORG *,3\<close> and \<open>A CNOP 14,17\<close>.\<close>

definition location_counter_operand :: operand where
  "location_counter_operand = expr_assembler_operand
     \<lparr>expression = mach_expr_location_counter, leftmost_term = mach_expr_location_counter,
      has_dependencies = False, evaluate = RELOC \<lparr>addr_section = 0, addr_offset = 0\<rparr>,
      evaluate_diags = [], get_value = ''*'', get_dependencies = no_dependencies\<rparr>"

definition ORG_star_3 :: rebuilt_statement where
  "ORG_star_3 = statement EMPTY [] [location_counter_operand, constant_operand 3 ''3'']"

definition example_ORG_operations :: ORG_context_operations where
  "example_ORG_operations =
     \<lparr>check_address_for_ORG = (\<lambda>addr_to_check curr_addr boundary offset. valid),
      set_location_counter_value = (\<lambda>addr boundary offset c. c),
      set_location_counter_value_postponed = (\<lambda>addr boundary offset c. c),
      set_available_location_counter_value = (\<lambda>c. c)\<rparr>"

definition A_CNOP_14_17 :: rebuilt_statement where
  "A_CNOP_14_17 = statement ORD ''A'' [constant_operand 14 ''14'', constant_operand 17 ''17'']"

definition B_CNOP_14_17 :: rebuilt_statement where
  "B_CNOP_14_17 = statement ORD ''B'' [constant_operand 14 ''14'', constant_operand 17 ''17'']"


definition example_deferred_statement :: deferred_statement where
  "example_deferred_statement =
     \<lparr>instruction_ref = ''LR'', deferred_ref = ''1,'', deferred_diags = []\<rparr>"

definition example_status :: processing_status where
  "example_status = (\<lparr>form = form_MACH, occurrence = PRESENT\<rparr>, ''LR'')"

definition error_S0003 :: diagnostic_op where
  "error_S0003 = mk_diag error ''S0003''"

definition example_parser :: parser_operations where
  "example_parser =
     \<lparr>parse_operand_field = (\<lambda>field st. (([], [], []), [error_S0003])),
      filter_cached_diagnostics = (\<lambda>d. deferred_diags d)\<rparr>"

definition example_cache :: statement_cache where
  "example_cache = \<lparr>get_base = DEFERRED example_deferred_statement, cache = []\<rparr>"

text \<open>
  A provider over a list of statement caches: finished when the list is used up.
\<close>

definition list_provider :: "statement_cache list provider_operations" where
  "list_provider =
     \<lparr>finished = (\<lambda>s. s = []),
      get_next_cache = (\<lambda>s. case s of [] \<Rightarrow> ((None, None), []) | sc # r \<Rightarrow> ((Some sc, None), r)),
      go_back = (\<lambda>ri s. s),
      try_trigger_attribute_lookahead_instr = (\<lambda>i s. (False, s)),
      try_trigger_attribute_lookahead_stmt = (\<lambda>st s. (False, s))\<rparr>"

definition example_processor :: "processing_kind \<Rightarrow> statement_processor" where
  "example_processor k =
     \<lparr>kind = k, resolve_instruction = (\<lambda>i. i), get_processing_status = (\<lambda>ri. Some example_status)\<rparr>"







section \<open>Properties of the context operations\<close>

lemma symbols_align: "symbols (snd (align al c)) = symbols c"
  by (simp add: align_def reserve_storage_area_def ensure_current_section_def loctr_reserve_def Let_def split: option.splits prod.splits)

lemma diags_align: "diags (snd (align al c)) = diags c"
  by (simp add: align_def reserve_storage_area_def ensure_current_section_def loctr_reserve_def Let_def split: option.splits prod.splits)



lemma symbols_EQU_type_attr: "symbols (snd (EQU_type_attr ops c)) = symbols c"
  by (auto simp: EQU_type_attr_def diagnose_def add_diagnostic_def Let_def split: option.splits symbol_value.splits)

lemma symbols_EQU_length_attr: "symbols (snd (EQU_length_attr ops c)) = symbols c"
  by (auto simp: EQU_length_attr_def diagnose_def add_diagnostic_def Let_def split: option.splits symbol_value.splits)

lemma EQU_length_attr_absent:
  "length ops < 2 \<or> \<not> is_ASM (ops ! 1) \<Longrightarrow> fst (EQU_length_attr ops c) = None"
  by (auto simp: EQU_length_attr_def)

lemma create_symbol_new:
  "\<not> symbol_defined c n \<Longrightarrow>
   create_symbol n v a c = (True, c\<lparr>symbols := symbols c @ [(n, \<lparr>sym_value = v, attributes = a\<rparr>)]\<rparr>)"
  by (simp add: create_symbol_def ord_create_symbol_def)

lemma get_symbol_appended:
  "\<not> symbol_defined c n \<Longrightarrow> get_symbol (c\<lparr>symbols := symbols c @ [(n, s)]\<rparr>) n = Some s"
  by (cases "map_of (symbols c) n") (simp_all add: get_symbol_def symbol_defined_def map_add_def)

lemma EQU_default_length_symbols:
  "symbols c' = symbols c \<Longrightarrow> EQU_default_length c' e = EQU_default_length c e"
  by (simp add: EQU_default_length_def get_symbol_def split: mach_expression.splits)

lemma symbol_defined_symbols:
  "symbols c' = symbols c \<Longrightarrow> symbol_defined c' n = symbol_defined c n"
  by (simp add: symbol_defined_def get_symbol_def)

lemma get_symbol_symbols:
  "symbols c' = symbols c \<Longrightarrow> get_symbol c' n = get_symbol c n"
  by (simp add: get_symbol_def)

lemma EQU_value_creates:
  assumes nd: "\<not> symbol_defined c n"
    and op0: "operands_ref stmt ! 0 = expr_assembler_operand e"
  shows "\<exists>s. get_symbol (EQU_value stmt n t None c) n = Some s
           \<and> len_attr (attributes s) = EQU_default_length c e"
proof -
  let ?attrs = "\<lparr>origin = origin_EQU, type_attr = t, len_attr = EQU_default_length c e\<rparr>"
  let ?h = "get_dependencies e"
  consider (resolved) "\<not> contains_dependencies ?h"
    | (addr) "contains_dependencies ?h" "is_address ?h \<and> unresolved_spaces_empty ?h"
    | (postponed) "contains_dependencies ?h" "\<not> (is_address ?h \<and> unresolved_spaces_empty ?h)"
    by blast
  then show ?thesis
  proof cases
    case resolved
    have nd': "\<not> symbol_defined (diagnose (evaluate_diags e) c) n"
      using nd by (simp add: symbol_defined_def get_symbol_def diagnose_def)
    have "EQU_value stmt n t None c =
          snd (create_symbol n (evaluate e) ?attrs (diagnose (evaluate_diags e) c))"
      using resolved op0 by (simp add: EQU_value_def Let_def)
    then show ?thesis
      using nd' by (simp add: create_symbol_new get_symbol_appended)
  next
    case addr
    then obtain a where a: "unresolved_address ?h = Some a"
      by (auto simp: is_address_def)
    have "EQU_value stmt n t None c = snd (create_symbol n (RELOC a) ?attrs c)"
      using addr a op0 by (simp add: EQU_value_def Let_def)
    then show ?thesis
      using nd by (simp add: create_symbol_new get_symbol_appended)
  next
    case postponed
    let ?c1 = "c\<lparr>symbols := symbols c @ [(n, \<lparr>sym_value = UNDEF, attributes = ?attrs\<rparr>)]\<rparr>"
    have sym: "get_symbol (case add_symbol_dependency n stmt ?c1 of
                   (True, c2) \<Rightarrow> c2 | (False, c2) \<Rightarrow> add_diagnostic error_E033 c2) n
               = get_symbol ?c1 n"
      by (simp add: add_symbol_dependency_def get_symbol_def add_diagnostic_def)
    have "EQU_value stmt n t None c =
          (case add_symbol_dependency n stmt ?c1 of
             (True, c2) \<Rightarrow> c2 | (False, c2) \<Rightarrow> add_diagnostic error_E033 c2)"
      using postponed op0 nd by (auto simp: EQU_value_def Let_def create_symbol_new)
    then show ?thesis
      using nd sym by (simp add: get_symbol_appended)
  qed
qed


lemma and_pred_even: "(2 * m) AND (2 * m - 1) = 2 * (m AND (m - 1))" for m :: int
proof -
  have "(2 * m - 1) div 2 = m - 1" by simp
  then show ?thesis
    by (subst and_rec) simp
qed

lemma and_pred_odd: "(2 * m + 1) AND (2 * m) = 2 * m" for m :: int
  by (subst and_rec) simp

lemma and_pred_power_of_two:
  "0 < n \<Longrightarrow> (n AND (n - 1) = 0) = is_power_of_two n"
proof (induction n rule: is_power_of_two.induct)
  case (1 n)
  show ?case
  proof (cases "n = 1")
    case True
    then show ?thesis by (simp add: is_power_of_two.simps)
  next
    case False
    show ?thesis
    proof (cases "even n")
      case True
      then obtain m where m: "n = 2 * m" by (auto elim: evenE)
      with 1 False have "0 < m" by simp
      with 1 False m have "(m AND (m - 1) = 0) = is_power_of_two m" by simp
      then show ?thesis
        using m False \<open>0 < m\<close>
        by (subst is_power_of_two.simps) (simp add: and_pred_even)
    next
      case odd: False
      then obtain m where m: "n = 2 * m + 1" by (auto elim: oddE)
      with 1 False have "m \<noteq> 0" by simp
      then show ?thesis
        using m odd False
        by (subst is_power_of_two.simps) (simp add: and_pred_odd)
    qed
  qed
qed

lemma aligned_no_align: "aligned no_align n = n"
  by (simp add: aligned_def no_align_def)

lemma loctr_value_align_no_align: "loctr_value (snd (align no_align c)) = loctr_value c"
proof (cases "curr_section c")
  case None
  then show ?thesis
    by (simp add: align_def reserve_storage_area_def ensure_current_section_def loctr_reserve_def
        loctr_value_def aligned_no_align Let_def)
next
  case (Some i)
  then show ?thesis
    by (simp add: align_def reserve_storage_area_def ensure_current_section_def loctr_reserve_def
        loctr_value_def aligned_no_align Let_def)
qed

lemma loctr_value_cong:
  "sections c' = sections c \<Longrightarrow> curr_section c' = curr_section c \<Longrightarrow> loctr_value c' = loctr_value c"
  by (simp add: loctr_value_def split: option.splits)

lemma sections_create_symbol: "sections (snd (create_symbol n v a c)) = sections c"
  by (simp add: create_symbol_def ord_create_symbol_def)

lemma curr_section_create_symbol: "curr_section (snd (create_symbol n v a c)) = curr_section c"
  by (simp add: create_symbol_def ord_create_symbol_def)

lemma diags_create_symbol: "diags (snd (create_symbol n v a c)) = diags c"
  by (simp add: create_symbol_def ord_create_symbol_def)

lemma loctr_value_ORG_label: "loctr_value (snd (ORG_label stmt c)) = loctr_value c"
proof -
  let ?c1 = "find_sequence_symbol stmt c"
  have 1: "loctr_value ?c1 = loctr_value c"
    by (rule loctr_value_cong) (simp_all add: find_sequence_symbol_def split: label_si_type.splits)
  have "loctr_value (snd (ORG_label stmt c)) = loctr_value (snd (align no_align ?c1))"
    by (rule loctr_value_cong)
       (simp_all add: ORG_label_def Let_def split_beta add_diagnostic_def
          sections_create_symbol curr_section_create_symbol)
  then show ?thesis
    by (simp add: loctr_value_align_no_align 1)
qed

lemma ORG_operands_invalid_boundary:
  assumes "try_get_abs_value_expr e = Some v" and "\<not> (2 \<le> v \<and> v \<le> 4096 \<and> is_power_of_two v)"
  shows "ORG_operands (op0 # expr_assembler_operand e # rest) 0 (None, 0, 0) c =
         (if is_ASM op0 \<and> access_expr op0 = None then Inr ((None, 0, 0), c)
          else Inl (add_diagnostic error_A116_ORG_boundary_operand c))"
proof -
  have bad: "v < 2 \<or> v > 4096 \<or> (v AND (v - 1)) \<noteq> 0"
    using assms(2) and_pred_power_of_two [of v] by auto
  show ?thesis
    using assms(1) bad
    by (cases "access_expr op0") (auto simp del: try_get_abs_value_expr.simps)
qed

lemma CNOP_no_reservation:
  assumes "\<not> CNOP_operands_valid (operands_ref stmt)"
  shows "process_CNOP stmt c = add_dependency (CNOP_label stmt c)"
proof (cases "length (operands_ref stmt) = 2")
  case False
  then show ?thesis by (simp add: process_CNOP_def Let_def)
next
  case True
  show ?thesis
  proof (cases "try_get_abs_value (operands_ref stmt ! 0)")
    case None
    then show ?thesis using True by (simp add: process_CNOP_def Let_def)
  next
    case byte: (Some b)
    show ?thesis
    proof (cases "try_get_abs_value (operands_ref stmt ! 1)")
      case None
      then show ?thesis using True byte by (simp add: process_CNOP_def Let_def)
    next
      case (Some n)
      have "\<not> (0 \<le> b \<and> b < n \<and> is_power_of_two n \<and> even b)"
        using assms True byte Some by (simp add: CNOP_operands_valid_def)
      then have "\<not> (b \<ge> 0 \<and> n > 0 \<and> (n AND (n - 1)) = 0 \<and> b < n \<and> b mod 2 = 0)"
        using and_pred_power_of_two [of n] by (auto simp: even_iff_mod_2_eq_zero)
      then show ?thesis
        using True byte Some by (auto simp: process_CNOP_def Let_def)
    qed
  qed
qed

lemma diags_find_sequence_symbol: "diags (find_sequence_symbol stmt c) = diags c"
  by (simp add: find_sequence_symbol_def split: label_si_type.splits)

lemma symbols_find_sequence_symbol: "symbols (find_sequence_symbol stmt c) = symbols c"
  by (simp add: find_sequence_symbol_def split: label_si_type.splits)

lemma sections_find_sequence_symbol: "sections (find_sequence_symbol stmt c) = sections c"
  by (simp add: find_sequence_symbol_def split: label_si_type.splits)

lemma curr_section_find_sequence_symbol: "curr_section (find_sequence_symbol stmt c) = curr_section c"
  by (simp add: find_sequence_symbol_def split: label_si_type.splits)

lemma CNOP_invalid_operands:
  assumes inv: "\<not> CNOP_operands_valid (operands_ref stmt)" and lab: "find_label_symbol stmt = label"
  shows "process_CNOP stmt c = add_dependency (CNOP_label stmt c)"
    and "sections (process_CNOP stmt c) = sections (snd (align halfword c))"
    and "curr_section (process_CNOP stmt c) = curr_section (snd (align halfword c))"
    and "diags (process_CNOP stmt c)
         = diags c @ (if label \<noteq> [] \<and> symbol_defined c label then [error_E031] else [])"
    and "label \<noteq> [] \<Longrightarrow> \<not> symbol_defined c label \<Longrightarrow>
         get_symbol (process_CNOP stmt c) label
         = Some \<lparr>sym_value = RELOC (fst (align halfword c)), attributes = make_cnop_attrs\<rparr>"
proof -
  let ?c1 = "snd (align halfword c)"
  let ?c2 = "find_sequence_symbol stmt ?c1"
  have sd: "symbol_defined ?c2 label = symbol_defined c label"
    by (rule symbol_defined_symbols) (simp add: symbols_find_sequence_symbol symbols_align)
  show eq: "process_CNOP stmt c = add_dependency (CNOP_label stmt c)"
    by (rule CNOP_no_reservation [OF inv])
  show "sections (process_CNOP stmt c) = sections ?c1"
    by (simp add: eq add_dependency_def CNOP_label_def Let_def split_beta lab add_diagnostic_def
        sections_create_symbol sections_find_sequence_symbol)
  show "curr_section (process_CNOP stmt c) = curr_section ?c1"
    by (simp add: eq add_dependency_def CNOP_label_def Let_def split_beta lab add_diagnostic_def
        curr_section_create_symbol curr_section_find_sequence_symbol)
  show "diags (process_CNOP stmt c)
         = diags c @ (if label \<noteq> [] \<and> symbol_defined c label then [error_E031] else [])"
    by (simp add: eq add_dependency_def CNOP_label_def Let_def split_beta lab add_diagnostic_def sd
        diags_create_symbol diags_find_sequence_symbol diags_align)
  show "get_symbol (process_CNOP stmt c) label
         = Some \<lparr>sym_value = RELOC (fst (align halfword c)), attributes = make_cnop_attrs\<rparr>"
    if "label \<noteq> []" and nd: "\<not> symbol_defined c label"
  proof -
    have nd2: "\<not> symbol_defined ?c2 label" using nd sd by simp
    have "CNOP_label stmt c = snd (create_symbol label (RELOC (fst (align halfword c))) make_cnop_attrs ?c2)"
      using that nd2 by (simp add: CNOP_label_def Let_def split_beta lab)
    then have "process_CNOP stmt c = add_dependency
        (?c2\<lparr>symbols := symbols ?c2
           @ [(label, \<lparr>sym_value = RELOC (fst (align halfword c)), attributes = make_cnop_attrs\<rparr>)]\<rparr>)"
      using nd2 by (simp add: eq create_symbol_new)
    moreover have "get_symbol (add_dependency x) label = get_symbol x label" for x
      by (simp add: add_dependency_def get_symbol_def)
    ultimately show ?thesis
      using get_symbol_appended [OF nd2] by simp
  qed
qed


lemma cache_get_fill_cache:
  "\<not> cache_contains sc (processing_status_cache_key st) \<Longrightarrow>
   \<exists>item. cache_get (fill_cache m_parser sc d st) (processing_status_cache_key st) = Some item"
  by (cases "map_of (cache sc) (processing_status_cache_key st)")
     (simp_all add: fill_cache_def cache_insert_def cache_get_def cache_contains_def Let_def
        split_beta map_add_def)

lemma preprocess_deferred_result:
  "\<exists>item sc'. cache_get sc' (processing_status_cache_key st) = Some item
     \<and> preprocess_deferred m_parser k sc st d m_diagnoser
       = Inr (REPARSED \<lparr>base_stmt = cached_stmt item, status = st\<rparr>, sc',
              m_diagnoser @ (if k = LOOKAHEAD then [] else cached_diags item))"
proof (cases "cache_contains sc (processing_status_cache_key st)")
  case True
  then obtain item where "cache_get sc (processing_status_cache_key st) = Some item"
    by (auto simp: cache_contains_def cache_get_def)
  then show ?thesis
    using True by (auto simp: preprocess_deferred_def Let_def)
next
  case False
  from cache_get_fill_cache [OF False, of m_parser d]
  obtain item where "cache_get (fill_cache m_parser sc d st) (processing_status_cache_key st) = Some item"
    by blast
  then show ?thesis
    using False by (auto simp: preprocess_deferred_def Let_def)
qed


lemma get_next_switch_returns:
  "\<exists>stmt sc' s' ds. get_next_switch m_parser prov processor sc ri s m_diagnoser
     = Inr (stmt, sc', s', m_diagnoser @ ds)"
proof (cases "get_base sc")
  case (DEFERRED d)
  let ?r = "case ri of Some r \<Rightarrow> r | None \<Rightarrow> resolve_instruction processor (instruction_ref d)"
  show ?thesis
  proof (cases "get_processing_status processor ?r")
    case None
    then show ?thesis using DEFERRED by (simp add: get_next_switch_def Let_def)
  next
    case (Some proc_status)
    from preprocess_deferred_result [of proc_status m_parser "kind processor" sc d m_diagnoser]
    obtain stmt sc' ds where
      "preprocess_deferred m_parser (kind processor) sc proc_status d m_diagnoser
       = Inr (stmt, sc', m_diagnoser @ ds)" by blast
    then show ?thesis using DEFERRED Some by (simp add: get_next_switch_def Let_def)
  qed
qed (simp_all add: get_next_switch_def)

lemma ORG_star_3_result:
  "process_ORG example_ORG_operations ORG_star_3 initial_context
   = initial_context\<lparr>sections := [\<lparr>sec_name = [], sec_kind = EXECUTABLE, sec_loctr = 0\<rparr>],
       curr_section := Some 0, diags := [error_A116_ORG_boundary_operand]\<rparr>"
  by (simp add: process_ORG_def ORG_label_def ORG_star_3_def location_counter_operand_def
      find_sequence_symbol_def ctx_defs)

lemma not_valid_14_17:
  "\<not> CNOP_operands_valid [constant_operand 14 ''14'', constant_operand 17 ''17'']"
proof -
  have "\<not> is_power_of_two 17" by code_simp
  then show ?thesis by (simp add: CNOP_operands_valid_def constant_operand_def)
qed

lemma context_after_EQU_A_1:
  "process_EQU EQU_A_1 initial_context
   = initial_context\<lparr>symbols := [(''A'', \<lparr>sym_value = ABS 1,
         attributes = \<lparr>origin = origin_EQU, type_attr = None, len_attr = Some 1\<rparr>\<rparr>)],
       sections := [\<lparr>sec_name = [], sec_kind = EXECUTABLE, sec_loctr = 0\<rparr>], curr_section := Some 0\<rparr>"
  by (simp add: EQU_A_1_def ctx_defs)

lemma context_with_A_value:
  "context_with_A
   = initial_context\<lparr>symbols := [(''A'', \<lparr>sym_value = ABS 1,
         attributes = \<lparr>origin = origin_EQU, type_attr = None, len_attr = Some 4\<rparr>\<rparr>)],
       sections := [\<lparr>sec_name = [], sec_kind = EXECUTABLE, sec_loctr = 0\<rparr>], curr_section := Some 0\<rparr>"
  by (simp add: context_with_A_def A_EQU_1_4_def ctx_defs)

lemma process_EQU_default_length:
  assumes lab: "find_label_symbol stmt = n" and ne: "n \<noteq> []" and nd: "\<not> symbol_defined c n"
    and ops: "operands_ref stmt = ops" and "ops \<noteq> []" and "length ops \<le> 5"
    and op0: "ops ! 0 = expr_assembler_operand e"
    and nolen: "length ops < 2 \<or> \<not> is_ASM (ops ! 1)"
  shows "\<exists>s. get_symbol (process_EQU stmt c) n = Some s
           \<and> len_attr (attributes s) = EQU_default_length c e"
proof -
  let ?c0 = "snd (align no_align c)"
  let ?c1 = "snd (EQU_type_attr ops ?c0)"
  let ?c2 = "snd (EQU_length_attr ops ?c1)"
  have s2: "symbols ?c2 = symbols c"
    by (simp add: symbols_EQU_length_attr symbols_EQU_type_attr symbols_align)
  have nd0: "\<not> symbol_defined ?c0 n"
    using nd by (simp add: symbol_defined_symbols [OF symbols_align])
  have nd2: "\<not> symbol_defined ?c2 n"
    using nd by (simp add: symbol_defined_symbols [OF s2])
  have "process_EQU stmt c = EQU_value stmt n (fst (EQU_type_attr ops ?c0)) (fst (EQU_length_attr ops ?c1)) ?c2"
    using lab ne nd0 ops assms(5,6)
    by (simp add: process_EQU_def Let_def split_beta)
  also have "\<dots> = EQU_value stmt n (fst (EQU_type_attr ops ?c0)) None ?c2"
    using nolen by (simp add: EQU_length_attr_absent)
  finally have eq: "process_EQU stmt c = EQU_value stmt n (fst (EQU_type_attr ops ?c0)) None ?c2" .
  have "operands_ref stmt ! 0 = expr_assembler_operand e"
    using ops op0 by simp
  from EQU_value_creates [OF nd2 this]
  show ?thesis
    by (simp add: eq EQU_default_length_symbols [OF s2])
qed

section \<open>Duplicate labels\<close>



lemma symbol_defined_iff: "get_symbol c n = Some first \<Longrightarrow> symbol_defined c n"
  by (simp add: symbol_defined_def)



























section \<open>Equality of resource locations\<close>

text \<open>
  \<open>operator==\<close> compares what the two locations hold: both hold nothing, or both hold
  data with the same hash and the same URI, byte for byte.
\<close>

lemma operator_eq_stored:
  "operator_eq a b \<longleftrightarrow>
     (empty_location a \<and> empty_location b)
     \<or> (\<exists>da db. m_data a = Some da \<and> m_data b = Some db \<and> hash da = hash db \<and> uri da = uri db)"
  by (auto simp: operator_eq_def empty_location_def split: option.splits)

section \<open>Claims\<close>




text \<open>
  C2, as amended. The copy stack stays duplicate-free. When the member was found
  (\<open>processed\<close>) and its name already appears on the whole copy stack, E062 is given to
  the diagnoser (when there is one) and the member is not entered; when it was found and
  is not on the stack, it is entered; when it was not found, E058 is given to the diagnoser
  (when there is one) and the member is not entered.
\<close>

theorem C2_copy_stack:
  assumes "distinct (whole_copy_stack c)"
  shows "distinct (whole_copy_stack (snd (common_copy_postprocess processed name c diagnoser)))
    \<and> (processed \<and> name \<in> set (whole_copy_stack c) \<longrightarrow>
         common_copy_postprocess processed name c diagnoser
           = (False, if diagnoser then add_diagnostic error_E062 c else c))
    \<and> (processed \<and> name \<notin> set (whole_copy_stack c) \<longrightarrow>
         common_copy_postprocess processed name c diagnoser = (True, enter_copy_member name c)
         \<and> whole_copy_stack (enter_copy_member name c) = whole_copy_stack c @ [name])
    \<and> (\<not> processed \<longrightarrow>
         common_copy_postprocess processed name c diagnoser
           = (False, if diagnoser then add_diagnostic error_E058 c else c))"
  using assms
  by (simp add: common_copy_postprocess_def whole_copy_stack_def enter_copy_member_def add_diagnostic_def)

theorem C2_copy_stack_witness:
  "distinct (whole_copy_stack (enter_copy_member ''MEMBER'' initial_context))
   \<and> common_copy_postprocess True ''MEMBER'' initial_context True
       = (True, enter_copy_member ''MEMBER'' initial_context)
   \<and> common_copy_postprocess True ''MEMBER'' (enter_copy_member ''MEMBER'' initial_context) True
       = (False, add_diagnostic error_E062 (enter_copy_member ''MEMBER'' initial_context))"
proof -
  have d0: "distinct (whole_copy_stack initial_context)"
    by (simp add: whole_copy_stack_def initial_context_def)
  have n0: "''MEMBER'' \<notin> set (whole_copy_stack initial_context)"
    by (simp add: whole_copy_stack_def initial_context_def)
  have d1: "distinct (whole_copy_stack (enter_copy_member ''MEMBER'' initial_context))"
    by (simp add: whole_copy_stack_def enter_copy_member_def initial_context_def)
  have n1: "''MEMBER'' \<in> set (whole_copy_stack (enter_copy_member ''MEMBER'' initial_context))"
    by (simp add: whole_copy_stack_def enter_copy_member_def initial_context_def)
  from C2_copy_stack [OF d0, of True "''MEMBER''" True] C2_copy_stack [OF d1, of True "''MEMBER''" True] n0 n1 d1
  show ?thesis by simp
qed

text \<open>
  C2, as stated, fails: a COPY of a member that is not on the copy stack and that the
  library does not provide (\<open>processed\<close> is false) does not enter the member.
\<close>

theorem C2_copy_stack_counterexample:
  "''MEMBER'' \<notin> set (whole_copy_stack initial_context)
   \<and> common_copy_postprocess False ''MEMBER'' initial_context True
       = (False, add_diagnostic error_E058 initial_context)
   \<and> ''MEMBER'' \<notin> set (whole_copy_stack (snd (common_copy_postprocess False ''MEMBER'' initial_context True)))"
  by (simp add: common_copy_postprocess_def whole_copy_stack_def add_diagnostic_def initial_context_def)



text \<open>
  C4. For an EQU statement with no explicit length-attribute operand (a label that is
  not yet defined, one to five operands, the first an expression), the symbol is created,
  and its length attribute is that of the symbol \<open>S\<close> when the leftmost term of the value
  expression is a symbol \<open>S\<close> that is defined with a value kind other than undefined, and
  1 in every other case.
\<close>

theorem C4_EQU_length_attribute_default:
  assumes "find_label_symbol stmt = n" and "n \<noteq> []" and "\<not> symbol_defined c n"
    and "operands_ref stmt = ops" and "ops \<noteq> []" and "length ops \<le> 5"
    and "ops ! 0 = expr_assembler_operand e"
    and "length ops < 2 \<or> \<not> is_ASM (ops ! 1)"
  shows "\<exists>s. get_symbol (process_EQU stmt c) n = Some s
           \<and> (\<forall>S len_symbol. leftmost_term e = mach_expr_symbol S
                  \<and> get_symbol c S = Some len_symbol \<and> sym_value len_symbol \<noteq> UNDEF
                \<longrightarrow> len_attr (attributes s) = len_attr (attributes len_symbol))
           \<and> ((\<forall>S len_symbol. leftmost_term e = mach_expr_symbol S
                  \<and> get_symbol c S = Some len_symbol \<longrightarrow> sym_value len_symbol = UNDEF)
                \<longrightarrow> len_attr (attributes s) = Some 1)"
proof -
  from process_EQU_default_length [OF assms]
  obtain s where s: "get_symbol (process_EQU stmt c) n = Some s"
    and l: "len_attr (attributes s) = EQU_default_length c e" by blast
  have "\<forall>S len_symbol. leftmost_term e = mach_expr_symbol S
          \<and> get_symbol c S = Some len_symbol \<and> sym_value len_symbol \<noteq> UNDEF
        \<longrightarrow> len_attr (attributes s) = len_attr (attributes len_symbol)"
    using l by (simp add: EQU_default_length_def)
  moreover have "(\<forall>S len_symbol. leftmost_term e = mach_expr_symbol S
          \<and> get_symbol c S = Some len_symbol \<longrightarrow> sym_value len_symbol = UNDEF)
        \<longrightarrow> len_attr (attributes s) = Some 1"
    using l by (auto simp: EQU_default_length_def split: mach_expression.splits option.splits)
  ultimately show ?thesis using s by blast
qed

theorem C4_EQU_length_attribute_default_witness:
  "\<exists>s. get_symbol (process_EQU B_EQU_A context_with_A) ''B'' = Some s \<and> len_attr (attributes s) = Some 4"
proof -
  have h1: "find_label_symbol B_EQU_A = ''B''" by (simp add: B_EQU_A_def find_label_symbol_def statement_def)
  have h2: "''B'' \<noteq> []" by simp
  have h3: "\<not> symbol_defined context_with_A ''B''" by (simp add: context_with_A_value symbol_defined_def get_symbol_def initial_context_def)
  have h4: "operands_ref B_EQU_A = [symbol_operand ''A'' (ABS 1)]" by (simp add: B_EQU_A_def statement_def)
  have h5: "[symbol_operand ''A'' (ABS 1)] \<noteq> []" by simp
  have h6: "length [symbol_operand ''A'' (ABS 1)] \<le> 5" by simp
  have h7: "[symbol_operand ''A'' (ABS 1)] ! 0 = expr_assembler_operand \<lparr>expression = mach_expr_symbol ''A'', leftmost_term = mach_expr_symbol ''A'', has_dependencies = False,
      evaluate = ABS 1, evaluate_diags = [], get_value = ''A'', get_dependencies = no_dependencies\<rparr>" by (simp add: symbol_operand_def)
  have h8: "length [symbol_operand ''A'' (ABS 1)] < 2 \<or> \<not> is_ASM ([symbol_operand ''A'' (ABS 1)] ! 1)" by simp
  have g: "get_symbol context_with_A ''A''
      = Some \<lparr>sym_value = ABS 1, attributes = \<lparr>origin = origin_EQU, type_attr = None, len_attr = Some 4\<rparr>\<rparr>"
    by (simp add: context_with_A_value get_symbol_def initial_context_def)
  from C4_EQU_length_attribute_default [OF h1 h2 h3 h4 h5 h6 h7 h8] g show ?thesis by force
qed

text \<open>
  C5, as amended. An ORG statement whose second operand evaluates to an absolute value
  that is not a power of two in the range 2 to 4096 is diagnosed with A116 (with A245 when
  the first operand is an assembler operand without an expression, which ends the scan of
  the operands before the boundary is looked at), and the value of the location counter
  is not modified.
\<close>

theorem C5_ORG_invalid_boundary:
  assumes ops: "operands_ref stmt = ops" and len: "1 < length ops"
    and op1: "ops ! 1 = expr_assembler_operand e"
    and val: "try_get_abs_value_expr e = Some v"
    and bad: "\<not> (2 \<le> v \<and> v \<le> 4096 \<and> is_power_of_two v)"
  shows "process_ORG ord_ctx stmt c =
           add_diagnostic
             (if is_ASM (ops ! 0) \<and> access_expr (ops ! 0) = None then error_A245_ORG_expression
              else error_A116_ORG_boundary_operand)
             (snd (ORG_label stmt c))
         \<and> loctr_value (process_ORG ord_ctx stmt c) = loctr_value c"
proof -
  obtain op0 rest where shape: "ops = op0 # expr_assembler_operand e # rest"
    using len op1 by (cases ops; cases "tl ops") auto
  let ?c3 = "snd (ORG_label stmt c)"
  have eq: "process_ORG ord_ctx stmt c =
           add_diagnostic
             (if is_ASM (ops ! 0) \<and> access_expr (ops ! 0) = None then error_A245_ORG_expression
              else error_A116_ORG_boundary_operand) ?c3"
    using ops shape ORG_operands_invalid_boundary [OF val bad, of op0 rest ?c3]
    by (simp add: process_ORG_def Let_def split_beta)
  have "loctr_value (add_diagnostic d ?c3) = loctr_value ?c3" for d
    by (rule loctr_value_cong) (simp_all add: add_diagnostic_def)
  with eq show ?thesis by (simp add: loctr_value_ORG_label)
qed

theorem C5_ORG_invalid_boundary_witness:
  "process_ORG example_ORG_operations ORG_star_3 initial_context
     = add_diagnostic error_A116_ORG_boundary_operand (snd (ORG_label ORG_star_3 initial_context))
   \<and> loctr_value (process_ORG example_ORG_operations ORG_star_3 initial_context) = 0"
proof -
  let ?e = "\<lparr>expression = mach_expr_other, leftmost_term = mach_expr_other, has_dependencies = False,
      evaluate = ABS 3, evaluate_diags = [], get_value = ''3'', get_dependencies = no_dependencies\<rparr>"
  have h1: "operands_ref ORG_star_3 = [location_counter_operand, constant_operand 3 ''3'']"
    by (simp add: ORG_star_3_def statement_def)
  have h2: "1 < length [location_counter_operand, constant_operand 3 ''3'']" by simp
  have h3: "[location_counter_operand, constant_operand 3 ''3''] ! 1 = expr_assembler_operand ?e"
    by (simp add: constant_operand_def)
  have h4: "try_get_abs_value_expr ?e = Some 3" by simp
  have "\<not> is_power_of_two 3" by code_simp
  then have h5: "\<not> (2 \<le> (3::int) \<and> (3::int) \<le> 4096 \<and> is_power_of_two 3)" by simp
  have lv: "loctr_value initial_context = 0"
    by (simp add: loctr_value_def initial_context_def)
  have i: "(if is_ASM ([location_counter_operand, constant_operand 3 ''3''] ! 0)
               \<and> access_expr ([location_counter_operand, constant_operand 3 ''3''] ! 0) = None
            then error_A245_ORG_expression else error_A116_ORG_boundary_operand)
           = error_A116_ORG_boundary_operand"
    by (simp add: location_counter_operand_def)
  show ?thesis
    by (rule C5_ORG_invalid_boundary [OF h1 h2 h3 h4 h5, of example_ORG_operations initial_context, unfolded i lv])
qed

text \<open>
  C5, as stated, fails: \<open>ORG *,3\<close> is diagnosed with A116, not with A115.
\<close>

theorem C5_ORG_invalid_boundary_counterexample:
  "try_get_abs_value (operands_ref ORG_star_3 ! 1) = Some 3
   \<and> \<not> is_power_of_two 3
   \<and> diags (process_ORG example_ORG_operations ORG_star_3 initial_context)
       = [error_A116_ORG_boundary_operand]
   \<and> error_A115_ORG_op_format
       \<notin> set (diags (process_ORG example_ORG_operations ORG_star_3 initial_context))"
proof -
  have "\<not> is_power_of_two 3" by code_simp
  then show ?thesis
    by (simp add: ORG_star_3_result)
       (simp add: ORG_star_3_def statement_def constant_operand_def initial_context_def mk_diag_def)
qed

text \<open>
  C6. A START directive processed while a section of kind executable or read-only exists
  emits E073 and changes nothing else in the context: no section is created and no
  location counter is advanced.
\<close>

theorem C6_START_after_executable_section:
  assumes "list_ex (\<lambda>s. sec_kind s = EXECUTABLE \<or> sec_kind s = READONLY) (sections c)"
  shows "process_START stmt c = c\<lparr>diags := diags c @ [error_E073]\<rparr>"
  using assms by (simp add: process_START_def add_diagnostic_def)

theorem C6_START_after_executable_section_witness:
  "list_ex (\<lambda>s. sec_kind s = EXECUTABLE \<or> sec_kind s = READONLY)
     (sections (process_sect EXECUTABLE CSECT_private initial_context))
   \<and> process_START X_START_0 (process_sect EXECUTABLE CSECT_private initial_context)
     = initial_context\<lparr>sections := [\<lparr>sec_name = [], sec_kind = EXECUTABLE, sec_loctr = 0\<rparr>],
         curr_section := Some 0, postponed := 1, diags := [error_E073]\<rparr>"
proof -
  have c: "process_sect EXECUTABLE CSECT_private initial_context
     = initial_context\<lparr>sections := [\<lparr>sec_name = [], sec_kind = EXECUTABLE, sec_loctr = 0\<rparr>],
         curr_section := Some 0, postponed := 1\<rparr>"
    by (simp add: process_sect_def CSECT_private_def statement_def find_label_symbol_def
        do_other_private_sections_exist_def section_defined_def initial_context_def set_section_def
        add_dependency_def Let_def)
  have h: "list_ex (\<lambda>s. sec_kind s = EXECUTABLE \<or> sec_kind s = READONLY)
     (sections (process_sect EXECUTABLE CSECT_private initial_context))"
    unfolding c by (simp add: initial_context_def)
  from C6_START_after_executable_section [OF h, of X_START_0] h show ?thesis
    unfolding c by (simp add: initial_context_def)
qed



text \<open>
  C8, as amended. A call of \<open>get_next\<close> on a provider that has not finished raises no
  exception: it returns a statement or none, and the diagnostic stream only grows. A call
  made after the provider has finished raises \<open>std::runtime_error\<close>.
\<close>

theorem C8_get_next:
  "(finished prov s \<longrightarrow>
      get_next m_parser prov processor s m_diagnoser = Inl (runtime_error ''provider already finished''))
   \<and> (\<not> finished prov s \<longrightarrow>
      (\<exists>stmt sc s' ds. get_next m_parser prov processor s m_diagnoser
         = Inr (stmt, sc, s', m_diagnoser @ ds)))"
proof (intro conjI impI)
  assume "finished prov s"
  then show "get_next m_parser prov processor s m_diagnoser = Inl (runtime_error ''provider already finished'')"
    by (simp add: get_next_def)
next
  assume nf: "\<not> finished prov s"
  obtain co ri s1 where g: "get_next_cache prov s = ((co, ri), s1)"
    by (metis surj_pair)
  show "\<exists>stmt sc s' ds. get_next m_parser prov processor s m_diagnoser = Inr (stmt, sc, s', m_diagnoser @ ds)"
  proof (cases co)
    case None
    then show ?thesis using nf g by (simp add: get_next_def)
  next
    case (Some sc)
    let ?t = "if kind processor = ORDINARY then
                (case retrieve_instruction sc of
                   Some instr \<Rightarrow> try_trigger_attribute_lookahead_instr prov instr s1
                 | None \<Rightarrow> (False, s1))
              else (False, s1)"
    obtain triggered s2 where t: "?t = (triggered, s2)" by (metis surj_pair)
    show ?thesis
    proof (cases triggered)
      case True
      then show ?thesis using nf g Some t by (simp add: get_next_def del: retrieve_instruction.simps)
    next
      case False
      from get_next_switch_returns [of m_parser prov processor sc ri s2 m_diagnoser]
      obtain stmt sc' s3 ds where sw:
        "get_next_switch m_parser prov processor sc ri s2 m_diagnoser = Inr (stmt, sc', s3, m_diagnoser @ ds)"
        by blast
      obtain b s4 where l: "try_trigger_attribute_lookahead_stmt prov (the stmt) s3 = (b, s4)"
        by (metis surj_pair)
      show ?thesis
        using nf g Some t False sw l
        by (cases stmt; cases b) (simp_all add: get_next_def del: retrieve_instruction.simps)
    qed
  qed
qed

theorem C8_get_next_witness:
  "get_next example_parser list_provider (example_processor ORDINARY) [] []
     = Inl (runtime_error ''provider already finished'')
   \<and> (\<exists>stmt sc s' ds. get_next example_parser list_provider (example_processor ORDINARY) [example_cache] []
         = Inr (stmt, sc, s', ds))"
proof -
  have f: "finished list_provider []" and nf: "\<not> finished list_provider [example_cache]"
    by (simp_all add: list_provider_def)
  from C8_get_next [of list_provider "[]" example_parser "example_processor ORDINARY" "[]"]
    C8_get_next [of list_provider "[example_cache]" example_parser "example_processor ORDINARY" "[]"] f nf
  show ?thesis by auto
qed

text \<open>
  C8, as stated, fails: \<open>get_next\<close> on a finished provider throws.
\<close>

theorem C8_get_next_counterexample:
  "finished list_provider []
   \<and> get_next example_parser list_provider (example_processor ORDINARY) [] []
     = Inl (runtime_error ''provider already finished'')"
  by (simp add: get_next_def list_provider_def)

text \<open>
  C10, as amended. For a CNOP statement whose operands are not two absolute values with
  \<open>0 \<le> byte < boundary\<close>, the boundary a power of two and the byte even, nothing is
  reserved and nothing is aligned beyond the halfword alignment that every CNOP starts
  with; the handler emits no diagnostic except E031 when the label is not empty and
  already defined (the later check of the postponed statement is not its part); a label that is not empty and not yet defined is created as a symbol at the
  halfword-aligned location counter.
\<close>

theorem C10_CNOP_invalid_operands:
  assumes inv: "\<not> CNOP_operands_valid (operands_ref stmt)" and lab: "find_label_symbol stmt = label"
  shows "process_CNOP stmt c = add_dependency (CNOP_label stmt c)
    \<and> sections (process_CNOP stmt c) = sections (snd (align halfword c))
    \<and> curr_section (process_CNOP stmt c) = curr_section (snd (align halfword c))
    \<and> diags (process_CNOP stmt c)
         = diags c @ (if label \<noteq> [] \<and> symbol_defined c label then [error_E031] else [])
    \<and> (label \<noteq> [] \<and> \<not> symbol_defined c label \<longrightarrow>
         get_symbol (process_CNOP stmt c) label
         = Some \<lparr>sym_value = RELOC (fst (align halfword c)), attributes = make_cnop_attrs\<rparr>)"
  using CNOP_invalid_operands [OF inv lab, of c] by simp

theorem C10_CNOP_invalid_operands_witness:
  "diags (process_CNOP B_CNOP_14_17 context_with_A) = []
   \<and> sections (process_CNOP B_CNOP_14_17 context_with_A) = sections context_with_A
   \<and> get_symbol (process_CNOP B_CNOP_14_17 context_with_A) ''B''
       = Some \<lparr>sym_value = RELOC \<lparr>addr_section = 0, addr_offset = 0\<rparr>, attributes = make_cnop_attrs\<rparr>"
proof -
  have h1: "\<not> CNOP_operands_valid (operands_ref B_CNOP_14_17)"
    using not_valid_14_17 by (simp add: B_CNOP_14_17_def statement_def)
  have h2: "find_label_symbol B_CNOP_14_17 = ''B''"
    by (simp add: B_CNOP_14_17_def statement_def find_label_symbol_def)
  have nd: "\<not> symbol_defined context_with_A ''B''"
    by (simp add: context_with_A_value symbol_defined_def get_symbol_def initial_context_def)
  have al: "align halfword context_with_A = (\<lparr>addr_section = 0, addr_offset = 0\<rparr>, context_with_A)"
    unfolding context_with_A_value
    by (simp add: align_def reserve_storage_area_def ensure_current_section_def loctr_reserve_def
        aligned_def halfword_def initial_context_def)
  have d: "diags context_with_A = []"
    by (simp add: context_with_A_value initial_context_def)
  note r = C10_CNOP_invalid_operands [OF h1 h2, of context_with_A]
  have 1: "diags (process_CNOP B_CNOP_14_17 context_with_A) = []"
    using r [THEN conjunct2, THEN conjunct2, THEN conjunct2, THEN conjunct1] nd d by simp
  have 2: "sections (process_CNOP B_CNOP_14_17 context_with_A) = sections context_with_A"
    using r [THEN conjunct2, THEN conjunct1] al by simp
  have 3: "get_symbol (process_CNOP B_CNOP_14_17 context_with_A) ''B''
       = Some \<lparr>sym_value = RELOC \<lparr>addr_section = 0, addr_offset = 0\<rparr>, attributes = make_cnop_attrs\<rparr>"
    using r [THEN conjunct2, THEN conjunct2, THEN conjunct2, THEN conjunct2] nd al by simp
  from 1 2 3 show ?thesis by blast
qed

text \<open>
  C10, as stated, fails: \<open>A CNOP 14,17\<close> after \<open>A EQU 1\<close> is diagnosed with E031.
\<close>

theorem C10_CNOP_invalid_operands_counterexample:
  "\<not> CNOP_operands_valid (operands_ref A_CNOP_14_17)
   \<and> diags (process_EQU EQU_A_1 initial_context) = []
   \<and> diags (process_CNOP A_CNOP_14_17 (process_EQU EQU_A_1 initial_context)) = [error_E031]"
proof -
  have 1: "\<not> CNOP_operands_valid (operands_ref A_CNOP_14_17)"
    using not_valid_14_17 by (simp add: A_CNOP_14_17_def statement_def)
  have 2: "diags (process_CNOP A_CNOP_14_17 (process_EQU EQU_A_1 initial_context)) = [error_E031]"
    unfolding context_after_EQU_A_1
    by (simp add: process_CNOP_def CNOP_label_def A_CNOP_14_17_def halfword_def find_sequence_symbol_def
        add_dependency_def ctx_defs)
  have 0: "diags (process_EQU EQU_A_1 initial_context) = []"
    unfolding context_after_EQU_A_1 by (simp add: initial_context_def)
  from 0 1 2 show ?thesis by blast
qed

end
